theory Spec2Isabelle
  imports Main
begin

section \<open>The image library and the filesystem, as the script uses them\<close>

text \<open>
  \<^verbatim>\<open>generate_icons.py\<close> is seventeen lines: one function, \<^verbatim>\<open>create_icon\<close>, and two
  calls of it. Everything the function does goes through four operations of the imaging
  library (\<^verbatim>\<open>Image.new\<close>, \<^verbatim>\<open>ImageDraw.rounded_rectangle\<close>, \<^verbatim>\<open>ImageDraw.rectangle\<close>,
  \<^verbatim>\<open>Image.save\<close>), whose code is not part of the repository. They are modelled in this
  section from what the specification says of them; the next section is the script itself.

  Python integers are unbounded, so sizes and coordinates are \<^typ>\<open>int\<close>; Python's
  \<^verbatim>\<open>//\<close> rounds towards minus infinity, as \<open>div\<close> on \<^typ>\<open>int\<close> does.
\<close>

datatype error =
    ValueError         \<comment> \<open>the spec's encoding error: the library rejects the parameters\<close>
  | FileNotFoundError  \<comment> \<open>a filesystem error: the parent directory does not exist\<close>
  | PermissionError    \<comment> \<open>a filesystem error: the parent directory is not writable\<close>

definition filesystem_error :: "error \<Rightarrow> bool" where
  "filesystem_error e = (e = FileNotFoundError \<or> e = PermissionError)"

type_synonym colour = string

text \<open>A box is the four-element list \<^verbatim>\<open>[x0, y0, x1, y1]\<close> the drawing calls take.\<close>

type_synonym box = "int \<times> int \<times> int \<times> int"

text \<open>
  A drawing call with the arguments it was given. \<^verbatim>\<open>fill\<close> and \<^verbatim>\<open>outline\<close> are
  \<^verbatim>\<open>None\<close> when the call leaves them out: nothing is filled, no outline is stroked.
\<close>

datatype draw_op =
    Rounded_rectangle (xy: box) (radius: int) (fill: "colour option")
      (outline: "colour option") (width: int)
  | Rectangle (xy: box) (fill: "colour option") (outline: "colour option")

text \<open>
  The canvas. \<open>im_base\<close> is the pixel buffer as it was allocated, a list of rows;
  \<open>im_drawn\<close> is the list of drawing calls made on it since, oldest first. How a call
  is rasterised is the library's affair and is not modelled: two canvases are the same
  when they were allocated alike and received the same calls in the same order.
\<close>

record image =
  im_mode :: string
  im_size :: "int \<times> int"
  im_base :: "colour list list"
  im_drawn :: "draw_op list"

text \<open>
  Modelled from the spec: \<^verbatim>\<open>Image.new(mode, size, color)\<close> of the imaging library, which
  is not in src/. The spec's step 1 is "allocate a \<open>size \<times> size\<close> canvas, fill color", its
  data model "a raster buffer of side length \<open>size\<close> pixels, initialized to a solid fill
  color", and its error taxonomy has an encoding error raised when the library rejects
  the parameters; a negative width or height is what the library rejects here.
\<close>

definition Image_new :: "string \<Rightarrow> int \<times> int \<Rightarrow> colour \<Rightarrow> error + image" where
  "Image_new mode sz color =
     (case sz of (w, h) \<Rightarrow>
        if w < 0 \<or> h < 0 then Inl ValueError
        else Inr \<lparr>im_mode = mode, im_size = (w, h),
                  im_base = replicate (nat h) (replicate (nat w) color),
                  im_drawn = []\<rparr>)"

text \<open>
  Modelled from the spec: \<^verbatim>\<open>ImageDraw.rounded_rectangle(xy, radius, fill, outline, width)\<close>
  and \<^verbatim>\<open>ImageDraw.rectangle(xy, fill, outline)\<close>, not in src/. Each draws on the canvas
  it is bound to; the model appends the call to the canvas's list.
\<close>

definition rounded_rectangle ::
    "image \<Rightarrow> box \<Rightarrow> int \<Rightarrow> colour option \<Rightarrow> colour option \<Rightarrow> int \<Rightarrow> image" where
  "rounded_rectangle img b r f ol w =
     img\<lparr>im_drawn := im_drawn img @ [Rounded_rectangle b r f ol w]\<rparr>"

definition rectangle :: "image \<Rightarrow> box \<Rightarrow> colour option \<Rightarrow> colour option \<Rightarrow> image" where
  "rectangle img b f ol = img\<lparr>im_drawn := im_drawn img @ [Rectangle b f ol]\<rparr>"

text \<open>
  A file's content: the encoding of a canvas in a format. The encoder is the library's
  and is a function of the format and the canvas alone, so two files hold the same bytes
  when they encode the same canvas in the same format.
\<close>

datatype file_content = Encoded (enc_format: string) (enc_image: image)

text \<open>
  The filesystem, relative to the working directory: the directories that exist (the
  working directory itself is the empty path), those among them that cannot be written
  to, and the files with their contents.
\<close>

record filesystem =
  fs_dirs :: "string set"
  fs_readonly :: "string set"
  fs_files :: "string \<rightharpoonup> file_content"

text \<open>
  Modelled from the spec: the "parent directory of \<open>output_path\<close>", which the script
  never computes itself. It is taken as \<^verbatim>\<open>os.path.dirname\<close> gives it: everything up to
  the last slash, with the slashes at its end removed unless it consists of slashes only.
  A path with no slash lies in the working directory.
\<close>

definition dirname :: "string \<Rightarrow> string" where
  "dirname p =
     (let head = rev (dropWhile (\<lambda>c. c \<noteq> CHR ''/'') (rev p))
      in if head \<noteq> [] \<and> \<not> list_all (\<lambda>c. c = CHR ''/'') head
         then rev (dropWhile (\<lambda>c. c = CHR ''/'') (rev head))
         else head)"

text \<open>
  Modelled from the spec: \<^verbatim>\<open>Image.save(fp, format)\<close>, not in src/. The spec's contract:
  "creates/overwrites the file at \<open>output_path\<close>", "fails with a filesystem error if the
  parent directory of \<open>output_path\<close> does not exist or is not writable", and on that
  failure "no file is created". The result is the outcome of the call, \<open>Inl\<close> the
  exception raised, paired with the filesystem the call leaves behind.
\<close>

definition Image_save ::
    "image \<Rightarrow> string \<Rightarrow> string \<Rightarrow> filesystem \<Rightarrow> (error + unit) \<times> filesystem" where
  "Image_save img fp fmt fs =
     (if dirname fp \<notin> fs_dirs fs then (Inl FileNotFoundError, fs)
      else if dirname fp \<in> fs_readonly fs then (Inl PermissionError, fs)
      else (Inr (), fs\<lparr>fs_files := (fs_files fs)(fp \<mapsto> Encoded fmt img)\<rparr>))"

section \<open>The script\<close>

text \<open>
  Line 4 of \<^verbatim>\<open>create_icon\<close>: \<^verbatim>\<open>img = Image.new('RGB', (size, size), '#0a0a0f')\<close>.
\<close>

definition new_canvas :: "int \<Rightarrow> error + image" where
  "new_canvas sz = Image_new ''RGB'' (sz, sz) ''#0a0a0f''"

text \<open>
  Lines 4 to 13 of \<^verbatim>\<open>create_icon\<close>: the canvas as it stands when it is handed to
  \<^verbatim>\<open>save\<close>. Line 5 binds the drawing handle to \<^verbatim>\<open>img\<close>, so the calls of lines 8,
  12 and 13 draw on that canvas, one after the other. An exception of \<^verbatim>\<open>Image.new\<close>
  ends the function, nothing is caught.
\<close>

definition draw_icon :: "int \<Rightarrow> error + image" where
  "draw_icon sz =
     (case new_canvas sz of
        Inl e \<Rightarrow> Inl e
      | Inr img \<Rightarrow>
          (let padding = sz div 10;
               border_width = max 2 (sz div 25);
               img = rounded_rectangle img
                       (padding, padding, sz - padding, sz - padding)
                       (sz div 6) None (Some ''#f0c674'') border_width;
               center = sz div 2;
               cross_size = sz div 3;
               cross_width = sz div 8;
               img = rectangle img
                       (center - cross_width div 2, center - cross_size div 2,
                        center + cross_width div 2, center + cross_size div 2)
                       (Some ''#f0c674'') None;
               img = rectangle img
                       (center - cross_size div 2, center - cross_width div 2,
                        center + cross_size div 2, center + cross_width div 2)
                       (Some ''#f0c674'') None
           in Inr img))"

text \<open>
  The whole function: draw, then \<^verbatim>\<open>img.save(output_path, 'PNG')\<close> (line 14). It returns
  nothing; what it raises, and the filesystem it leaves, are its result here.
\<close>

definition create_icon :: "int \<Rightarrow> string \<Rightarrow> filesystem \<Rightarrow> (error + unit) \<times> filesystem" where
  "create_icon sz output_path fs =
     (case draw_icon sz of
        Inl e \<Rightarrow> (Inl e, fs)
      | Inr img \<Rightarrow> Image_save img output_path ''PNG'' fs)"

text \<open>
  Two statements in sequence: an exception of the first ends the script, and the second
  is not run.
\<close>

definition and_then ::
    "(filesystem \<Rightarrow> (error + unit) \<times> filesystem) \<Rightarrow>
     (filesystem \<Rightarrow> (error + unit) \<times> filesystem) \<Rightarrow>
     filesystem \<Rightarrow> (error + unit) \<times> filesystem" where
  "and_then f g fs =
     (case f fs of
        (Inl e, fs') \<Rightarrow> (Inl e, fs')
      | (Inr u, fs') \<Rightarrow> g fs')"

text \<open>The top level of the script, lines 16 and 17.\<close>

definition main :: "filesystem \<Rightarrow> (error + unit) \<times> filesystem" where
  "main = and_then (create_icon 192 ''icons/icon-192.png'')
                   (create_icon 512 ''icons/icon-512.png'')"

section \<open>Vocabulary of the properties\<close>

text \<open>
  The drawing calls \<^verbatim>\<open>create_icon\<close> makes for a size, in call order; none when
  \<^verbatim>\<open>Image.new\<close> raised.
\<close>

definition drawing_calls :: "int \<Rightarrow> draw_op list" where
  "drawing_calls sz = (case draw_icon sz of Inl e \<Rightarrow> [] | Inr img \<Rightarrow> im_drawn img)"

text \<open>
  Measures of a box \<^verbatim>\<open>[x0, y0, x1, y1]\<close>: the distance between its edges, the number
  of pixel columns and rows it covers when both edges are counted in, whether it is
  symmetric about a point, and whether its corners are in order.
\<close>

definition box_width :: "box \<Rightarrow> int" where
  "box_width b = (case b of (x0, y0, x1, y1) \<Rightarrow> x1 - x0)"

definition box_height :: "box \<Rightarrow> int" where
  "box_height b = (case b of (x0, y0, x1, y1) \<Rightarrow> y1 - y0)"

definition box_columns :: "box \<Rightarrow> int" where
  "box_columns b = box_width b + 1"

definition box_rows :: "box \<Rightarrow> int" where
  "box_rows b = box_height b + 1"

definition centred_at :: "box \<Rightarrow> int \<times> int \<Rightarrow> bool" where
  "centred_at b c =
     (case b of (x0, y0, x1, y1) \<Rightarrow> case c of (cx, cy) \<Rightarrow>
        x0 + x1 = 2 * cx \<and> y0 + y1 = 2 * cy)"

definition well_ordered :: "box \<Rightarrow> bool" where
  "well_ordered b = (case b of (x0, y0, x1, y1) \<Rightarrow> x0 \<le> x1 \<and> y0 \<le> y1)"

text \<open>
  Three filesystems for the worked examples: one where \<^verbatim>\<open>icons/\<close> exists and is empty,
  one where it is missing, and one where it already holds an older file at the first
  output path.
\<close>

definition icons_ready :: filesystem where
  "icons_ready = \<lparr>fs_dirs = {[], ''icons''}, fs_readonly = {}, fs_files = Map.empty\<rparr>"

definition icons_missing :: filesystem where
  "icons_missing = \<lparr>fs_dirs = {[]}, fs_readonly = {}, fs_files = Map.empty\<rparr>"

definition icons_stale :: filesystem where
  "icons_stale =
     \<lparr>fs_dirs = {[], ''icons''}, fs_readonly = {},
      fs_files = [''icons/icon-192.png'' \<mapsto>
        Encoded ''JPEG'' \<lparr>im_mode = ''L'', im_size = (1, 1), im_base = [[''#000000'']],
                          im_drawn = []\<rparr>]\<rparr>"

section \<open>What the function computes\<close>

lemma new_canvas_eq:
  "0 \<le> sz \<Longrightarrow>
   new_canvas sz =
     Inr \<lparr>im_mode = ''RGB'', im_size = (sz, sz),
          im_base = replicate (nat sz) (replicate (nat sz) ''#0a0a0f''),
          im_drawn = []\<rparr>"
  by (simp add: new_canvas_def Image_new_def)

lemma new_canvas_neg: "sz < 0 \<Longrightarrow> new_canvas sz = Inl ValueError"
  by (simp add: new_canvas_def Image_new_def)

lemma draw_icon_eq:
  "0 \<le> sz \<Longrightarrow>
   draw_icon sz =
     Inr \<lparr>im_mode = ''RGB'', im_size = (sz, sz),
          im_base = replicate (nat sz) (replicate (nat sz) ''#0a0a0f''),
          im_drawn =
            [Rounded_rectangle (sz div 10, sz div 10, sz - sz div 10, sz - sz div 10)
               (sz div 6) None (Some ''#f0c674'') (max 2 (sz div 25)),
             Rectangle (sz div 2 - sz div 8 div 2, sz div 2 - sz div 3 div 2,
                        sz div 2 + sz div 8 div 2, sz div 2 + sz div 3 div 2)
               (Some ''#f0c674'') None,
             Rectangle (sz div 2 - sz div 3 div 2, sz div 2 - sz div 8 div 2,
                        sz div 2 + sz div 3 div 2, sz div 2 + sz div 8 div 2)
               (Some ''#f0c674'') None]\<rparr>"
  by (simp add: draw_icon_def new_canvas_eq rounded_rectangle_def rectangle_def Let_def)

lemma draw_icon_neg: "sz < 0 \<Longrightarrow> draw_icon sz = Inl ValueError"
  by (simp add: draw_icon_def new_canvas_neg)

lemma drawing_calls_eq:
  "0 \<le> sz \<Longrightarrow>
   drawing_calls sz =
     [Rounded_rectangle (sz div 10, sz div 10, sz - sz div 10, sz - sz div 10)
        (sz div 6) None (Some ''#f0c674'') (max 2 (sz div 25)),
      Rectangle (sz div 2 - sz div 8 div 2, sz div 2 - sz div 3 div 2,
                 sz div 2 + sz div 8 div 2, sz div 2 + sz div 3 div 2)
        (Some ''#f0c674'') None,
      Rectangle (sz div 2 - sz div 3 div 2, sz div 2 - sz div 8 div 2,
                 sz div 2 + sz div 3 div 2, sz div 2 + sz div 8 div 2)
        (Some ''#f0c674'') None]"
  by (simp add: drawing_calls_def draw_icon_eq)

lemma draw_icon_cases:
  obtains (rejected) "sz < 0" "draw_icon sz = Inl ValueError"
  | (drawn) img where "0 \<le> sz" "draw_icon sz = Inr img"
  using draw_icon_eq [of sz] draw_icon_neg [of sz] by (cases "sz < 0") auto

lemma create_icon_drawn:
  "draw_icon sz = Inr img \<Longrightarrow> create_icon sz p fs = Image_save img p ''PNG'' fs"
  by (simp add: create_icon_def)

lemma create_icon_rejected:
  "draw_icon sz = Inl e \<Longrightarrow> create_icon sz p fs = (Inl e, fs)"
  by (simp add: create_icon_def)

section \<open>What saving does to the filesystem\<close>

lemma Image_save_dirs:
  "fs_dirs (snd (Image_save img p fmt fs)) = fs_dirs fs"
  "fs_readonly (snd (Image_save img p fmt fs)) = fs_readonly fs"
  by (simp_all add: Image_save_def)

lemma Image_save_other:
  "q \<noteq> p \<Longrightarrow> fs_files (snd (Image_save img p fmt fs)) q = fs_files fs q"
  by (simp add: Image_save_def)


lemma Image_save_outcome:
  "fst (Image_save img p fmt (snd (Image_save img' p' fmt' fs))) =
   fst (Image_save img p fmt fs)"
  by (simp add: Image_save_def)

lemma Image_save_swap:
  "p \<noteq> p' \<Longrightarrow>
   snd (Image_save img p fmt (snd (Image_save img' p' fmt' fs))) =
   snd (Image_save img' p' fmt' (snd (Image_save img p fmt fs)))"
  by (simp add: Image_save_def fun_upd_twist)

lemma dirname_icons:
  "dirname ''icons/icon-192.png'' = ''icons''"
  "dirname ''icons/icon-512.png'' = ''icons''"
  "dirname ''icons/icon.jpg'' = ''icons''"
  by (simp_all add: dirname_def)

section \<open>The canvas\<close>

text \<open>
  C1. For every positive size \<open>s\<close>, line 4 allocates a canvas of size \<open>(s, s)\<close>: its
  buffer has \<open>s\<close> rows of \<open>s\<close> pixels, every pixel is \<^verbatim>\<open>#0a0a0f\<close>, and nothing has been
  drawn on it yet. The canvas that is drawn on and saved is this one: it has the same
  size and the same allocated buffer.
\<close>

theorem canvas_allocated:
  assumes "0 < s"
  shows "\<exists>canvas. new_canvas s = Inr canvas
           \<and> im_size canvas = (s, s)
           \<and> int (length (im_base canvas)) = s
           \<and> (\<forall>row \<in> set (im_base canvas).
                 int (length row) = s \<and> (\<forall>px \<in> set row. px = ''#0a0a0f''))
           \<and> im_drawn canvas = []
           \<and> (\<exists>img. draw_icon s = Inr img
                 \<and> im_size img = im_size canvas \<and> im_base img = im_base canvas)"
  using assms by (simp add: new_canvas_eq draw_icon_eq)

theorem canvas_allocated_witness:
  "(0::int) < 3 \<and>
   (\<exists>canvas. new_canvas 3 = Inr canvas
      \<and> im_size canvas = (3, 3)
      \<and> im_base canvas =
           [[''#0a0a0f'', ''#0a0a0f'', ''#0a0a0f''],
            [''#0a0a0f'', ''#0a0a0f'', ''#0a0a0f''],
            [''#0a0a0f'', ''#0a0a0f'', ''#0a0a0f'']]
      \<and> im_drawn canvas = [])"
  using canvas_allocated [of 3] by (simp add: new_canvas_eq numeral_3_eq_3)

section \<open>The cross\<close>

text \<open>
  C2, as the spec states it: for every positive \<open>s\<close> the vertical bar is \<open>s div 8\<close> wide
  and \<open>s div 3\<close> high. The code draws each bar from \<open>center - k div 2\<close> to
  \<open>center + k div 2\<close>, so halving truncates a second time. At \<open>s = 24\<close> the vertical
  bar's box is \<^verbatim>\<open>[11, 8, 13, 16]\<close>: its edges are 2 apart where \<open>24 div 8 = 3\<close>, and
  counting both edges in it covers 9 rows where \<open>24 div 3 = 8\<close>. The claim fails there
  whichever way a bar is measured.
\<close>

theorem cross_bars_counterexample:
  "\<not> (box_width (xy (drawing_calls 24 ! 1)) = 24 div 8
        \<and> box_height (xy (drawing_calls 24 ! 1)) = 24 div 3)
   \<and> \<not> (box_columns (xy (drawing_calls 24 ! 1)) = 24 div 8
        \<and> box_rows (xy (drawing_calls 24 ! 1)) = 24 div 3)"
  by (simp add: drawing_calls_eq box_width_def box_height_def box_columns_def box_rows_def)

text \<open>
  C2, amended. For every positive \<open>s\<close> the two calls after the outline are filled
  rectangles in \<^verbatim>\<open>#f0c674\<close>, both symmetric about \<open>(s div 2, s div 2)\<close>. The vertical
  bar's edges are \<open>2 * (s div 8 div 2)\<close> apart across and \<open>2 * (s div 3 div 2)\<close> apart
  down, the horizontal bar's the other way round: that is \<open>s div 8\<close> and \<open>s div 3\<close>
  when these are even, as they are for 192 and 512, and one less when they are odd.
\<close>

theorem cross_bars:
  assumes "0 < s"
  shows "tl (drawing_calls s) =
           [Rectangle (s div 2 - s div 8 div 2, s div 2 - s div 3 div 2,
                       s div 2 + s div 8 div 2, s div 2 + s div 3 div 2)
              (Some ''#f0c674'') None,
            Rectangle (s div 2 - s div 3 div 2, s div 2 - s div 8 div 2,
                       s div 2 + s div 3 div 2, s div 2 + s div 8 div 2)
              (Some ''#f0c674'') None]
         \<and> centred_at (xy (drawing_calls s ! 1)) (s div 2, s div 2)
         \<and> centred_at (xy (drawing_calls s ! 2)) (s div 2, s div 2)
         \<and> box_width (xy (drawing_calls s ! 1)) = 2 * (s div 8 div 2)
         \<and> box_height (xy (drawing_calls s ! 1)) = 2 * (s div 3 div 2)
         \<and> box_width (xy (drawing_calls s ! 2)) = 2 * (s div 3 div 2)
         \<and> box_height (xy (drawing_calls s ! 2)) = 2 * (s div 8 div 2)
         \<and> (even (s div 8) \<longrightarrow>
               box_width (xy (drawing_calls s ! 1)) = s div 8
               \<and> box_height (xy (drawing_calls s ! 2)) = s div 8)
         \<and> (even (s div 3) \<longrightarrow>
               box_height (xy (drawing_calls s ! 1)) = s div 3
               \<and> box_width (xy (drawing_calls s ! 2)) = s div 3)"
  using assms
  by (auto simp: drawing_calls_eq centred_at_def box_width_def box_height_def)

theorem cross_bars_witness:
  "(0::int) < 192 \<and> even (192 div 8 :: int) \<and> even (192 div 3 :: int)
   \<and> tl (drawing_calls 192) =
       [Rectangle (84, 64, 108, 128) (Some ''#f0c674'') None,
        Rectangle (64, 84, 128, 108) (Some ''#f0c674'') None]
   \<and> box_width (xy (drawing_calls 192 ! 1)) = 192 div 8
   \<and> box_height (xy (drawing_calls 192 ! 1)) = 192 div 3"
  using cross_bars [of 192] by simp

section \<open>The outline\<close>

text \<open>
  C3. For every positive \<open>s\<close> the first drawing call is a rounded rectangle with the box
  \<open>(p, p, s - p, s - p)\<close> for \<open>p = s div 10\<close>, radius \<open>s div 6\<close>, no fill, outline
  \<^verbatim>\<open>#f0c674\<close> and width \<open>max 2 (s div 25)\<close>; no other call draws a rounded rectangle.
\<close>

theorem outline_call:
  assumes "0 < s"
  shows "drawing_calls s ! 0 =
           Rounded_rectangle (s div 10, s div 10, s - s div 10, s - s div 10)
             (s div 6) None (Some ''#f0c674'') (max 2 (s div 25))
         \<and> (\<forall>op \<in> set (drawing_calls s).
               (\<exists>b r f ol w. op = Rounded_rectangle b r f ol w) \<longrightarrow>
               op = drawing_calls s ! 0)"
  using assms by (simp add: drawing_calls_eq)

theorem outline_call_witness:
  "(0::int) < 192 \<and>
   drawing_calls 192 ! 0 =
     Rounded_rectangle (19, 19, 173, 173) 32 None (Some ''#f0c674'') 7"
  using outline_call [of 192] by simp

text \<open>
  C4. For every positive \<open>s\<close> the width given to the outline is \<open>max 2 (s div 25)\<close>,
  which is at least 2 however small \<open>s\<close> is.
\<close>

theorem border_width_floor:
  assumes "0 < s"
  shows "\<exists>b r f ol w. drawing_calls s ! 0 = Rounded_rectangle b r f ol w
           \<and> w = max 2 (s div 25) \<and> 2 \<le> w"
  using assms by (simp add: drawing_calls_eq)

theorem border_width_floor_witness:
  "(0::int) < 1 \<and> width (drawing_calls 1 ! 0) = 2
   \<and> width (drawing_calls 192 ! 0) = 7 \<and> width (drawing_calls 512 ! 0) = 20"
  using border_width_floor [of 1] by (simp add: drawing_calls_eq)

text \<open>
  C9. For every positive \<open>s\<close> there are three drawing calls and the box of each has its
  corners in order, left before right and top before bottom.
\<close>

theorem boxes_well_ordered:
  assumes "0 < s"
  shows "length (drawing_calls s) = 3
         \<and> (\<forall>op \<in> set (drawing_calls s). well_ordered (xy op))"
proof -
  have "s div 10 \<le> s - s div 10"
    using assms by presburger
  moreover have "0 \<le> s div 8 div 2" "0 \<le> s div 3 div 2"
    using assms by presburger+
  ultimately show ?thesis
    using assms by (simp add: drawing_calls_eq well_ordered_def)
qed

theorem boxes_well_ordered_witness:
  "(0::int) < 1
   \<and> map xy (drawing_calls 1) = [(0, 0, 1, 1), (0, 0, 0, 0), (0, 0, 0, 0)]
   \<and> list_all (\<lambda>op. well_ordered (xy op)) (drawing_calls 1)"
  using boxes_well_ordered [of 1] by (simp add: drawing_calls_eq well_ordered_def)

section \<open>Saving\<close>

text \<open>
  C6. For a positive size, when the parent directory of \<open>output_path\<close> does not exist,
  \<^verbatim>\<open>create_icon\<close> raises \<^verbatim>\<open>FileNotFoundError\<close>, a filesystem error, and leaves the
  filesystem as it found it: no file is created.
\<close>

theorem missing_directory:
  assumes "0 < s" and "dirname p \<notin> fs_dirs fs"
  shows "create_icon s p fs = (Inl FileNotFoundError, fs)
         \<and> filesystem_error FileNotFoundError"
proof -
  obtain img where "draw_icon s = Inr img"
    using assms(1) draw_icon_eq [of s] by simp
  then show ?thesis
    using assms(2) by (simp add: create_icon_drawn Image_save_def filesystem_error_def)
qed

theorem missing_directory_witness:
  "(0::int) < 192
   \<and> dirname ''icons/icon-192.png'' \<notin> fs_dirs icons_missing
   \<and> create_icon 192 ''icons/icon-192.png'' icons_missing = (Inl FileNotFoundError, icons_missing)
   \<and> fs_files (snd (create_icon 192 ''icons/icon-192.png'' icons_missing)) ''icons/icon-192.png''
       = None"
  using missing_directory [of 192 "''icons/icon-192.png''" icons_missing]
  by (simp add: dirname_icons icons_missing_def)

text \<open>
  C10. Whatever the path, when \<^verbatim>\<open>create_icon\<close> succeeds the file at \<open>output_path\<close> holds
  the PNG encoding of the canvas it drew: the format is the literal \<^verbatim>\<open>'PNG'\<close> of line
  14, and the path's extension plays no part.
\<close>

theorem always_png:
  assumes "fst (create_icon s p fs) = Inr ()"
  shows "\<exists>img. draw_icon s = Inr img
           \<and> fs_files (snd (create_icon s p fs)) p = Some (Encoded ''PNG'' img)"
proof (cases s rule: draw_icon_cases)
  case rejected
  then show ?thesis
    using assms by (simp add: create_icon_rejected)
next
  case (drawn img)
  then show ?thesis
    using assms by (simp add: create_icon_drawn Image_save_def split: if_splits)
qed

theorem always_png_witness:
  "fst (create_icon 192 ''icons/icon.jpg'' icons_ready) = Inr ()
   \<and> map_option enc_format
        (fs_files (snd (create_icon 192 ''icons/icon.jpg'' icons_ready)) ''icons/icon.jpg'')
       = Some ''PNG''"
proof -
  obtain img where img: "draw_icon 192 = Inr img"
    using draw_icon_eq [of 192] by simp
  have ok: "fst (create_icon 192 ''icons/icon.jpg'' icons_ready) = Inr ()"
    by (simp add: create_icon_drawn [OF img] Image_save_def dirname_icons icons_ready_def)
  show ?thesis
    using ok always_png [OF ok] by auto
qed



section \<open>The top level\<close>

text \<open>
  C5. The script runs \<^verbatim>\<open>create_icon(192, 'icons/icon-192.png')\<close> and then, unless that
  raised, \<^verbatim>\<open>create_icon(512, 'icons/icon-512.png')\<close>, and nothing else: it leaves the
  directories alone and every file other than these two as it was, and where
  \<^verbatim>\<open>icons/\<close> exists and is writable it ends with exactly these two files written, each
  the PNG encoding of the canvas of its size.
\<close>

theorem top_level_calls:
  "main fs =
     (case create_icon 192 ''icons/icon-192.png'' fs of
        (Inl e, fs1) \<Rightarrow> (Inl e, fs1)
      | (Inr u, fs1) \<Rightarrow> create_icon 512 ''icons/icon-512.png'' fs1)
   \<and> fs_dirs (snd (main fs)) = fs_dirs fs
   \<and> fs_readonly (snd (main fs)) = fs_readonly fs
   \<and> (\<forall>p. p \<noteq> ''icons/icon-192.png'' \<and> p \<noteq> ''icons/icon-512.png'' \<longrightarrow>
         fs_files (snd (main fs)) p = fs_files fs p)
   \<and> (''icons'' \<in> fs_dirs fs \<and> ''icons'' \<notin> fs_readonly fs \<longrightarrow>
        (\<exists>a b. draw_icon 192 = Inr a \<and> draw_icon 512 = Inr b
           \<and> main fs =
               (Inr (),
                fs\<lparr>fs_files := (fs_files fs)
                      (''icons/icon-192.png'' \<mapsto> Encoded ''PNG'' a,
                       ''icons/icon-512.png'' \<mapsto> Encoded ''PNG'' b)\<rparr>)))"
proof -
  obtain a where a: "draw_icon 192 = Inr a"
    using draw_icon_eq [of 192] by simp
  obtain b where b: "draw_icon 512 = Inr b"
    using draw_icon_eq [of 512] by simp
  show ?thesis
    unfolding main_def and_then_def create_icon_drawn [OF a] create_icon_drawn [OF b]
    by (simp add: a b Image_save_def dirname_icons)
qed

theorem top_level_calls_witness:
  "''icons'' \<in> fs_dirs icons_ready \<and> ''icons'' \<notin> fs_readonly icons_ready
   \<and> fst (main icons_ready) = Inr ()
   \<and> dom (fs_files (snd (main icons_ready))) = {''icons/icon-192.png'', ''icons/icon-512.png''}
   \<and> ''README.md'' \<noteq> ''icons/icon-192.png'' \<and> ''README.md'' \<noteq> ''icons/icon-512.png''
   \<and> fs_files (snd (main icons_ready)) ''README.md'' = fs_files icons_ready ''README.md''"
proof -
  note calls = top_level_calls [of icons_ready]
  note frame = calls [THEN conjunct2, THEN conjunct2, THEN conjunct2, THEN conjunct1]
  note written = calls [THEN conjunct2, THEN conjunct2, THEN conjunct2, THEN conjunct2]
  have ready: "''icons'' \<in> fs_dirs icons_ready \<and> ''icons'' \<notin> fs_readonly icons_ready"
    by (simp add: icons_ready_def)
  have empty: "fs_files icons_ready = Map.empty"
    by (simp add: icons_ready_def)
  obtain a b where run:
    "main icons_ready =
       (Inr (),
        icons_ready\<lparr>fs_files := (fs_files icons_ready)
          (''icons/icon-192.png'' \<mapsto> Encoded ''PNG'' a,
           ''icons/icon-512.png'' \<mapsto> Encoded ''PNG'' b)\<rparr>)"
    using written [THEN mp, OF ready] by (elim exE conjE)
  have succeeded: "fst (main icons_ready) = Inr ()"
    unfolding run by simp
  have files: "dom (fs_files (snd (main icons_ready)))
                 = {''icons/icon-192.png'', ''icons/icon-512.png''}"
    unfolding run empty by (simp add: insert_commute)
  have other: "''README.md'' \<noteq> ''icons/icon-192.png'' \<and> ''README.md'' \<noteq> ''icons/icon-512.png''"
    by simp
  have untouched: "fs_files (snd (main icons_ready)) ''README.md''
                     = fs_files icons_ready ''README.md''"
    using frame [THEN spec, THEN mp, OF other] .
  show ?thesis
    using ready succeeded files other untouched by (intro conjI) simp_all
qed

text \<open>
  C8. Where both invocations of the top level can succeed, that is where \<^verbatim>\<open>icons/\<close>
  exists and is writable, they commute: run as the script has them or with lines 16 and
  17 exchanged, both succeed and leave the same filesystem, the starting one with the
  PNG encoding of the 192 canvas at \<^verbatim>\<open>icons/icon-192.png\<close> and that of the 512 canvas at
  \<^verbatim>\<open>icons/icon-512.png\<close>. Nothing is said of a run in which a call fails: the script
  stops at the first exception, and what it leaves then may depend on the order.
\<close>

theorem invocations_commute:
  assumes "''icons'' \<in> fs_dirs fs" and "''icons'' \<notin> fs_readonly fs"
  shows "\<exists>a b. draw_icon 192 = Inr a \<and> draw_icon 512 = Inr b
           \<and> and_then (create_icon 192 ''icons/icon-192.png'')
                       (create_icon 512 ''icons/icon-512.png'') fs
               = (Inr (),
                  fs\<lparr>fs_files := (fs_files fs)
                        (''icons/icon-192.png'' \<mapsto> Encoded ''PNG'' a,
                         ''icons/icon-512.png'' \<mapsto> Encoded ''PNG'' b)\<rparr>)
           \<and> and_then (create_icon 512 ''icons/icon-512.png'')
                       (create_icon 192 ''icons/icon-192.png'') fs
               = (Inr (),
                  fs\<lparr>fs_files := (fs_files fs)
                        (''icons/icon-192.png'' \<mapsto> Encoded ''PNG'' a,
                         ''icons/icon-512.png'' \<mapsto> Encoded ''PNG'' b)\<rparr>)
           \<and> main fs
               = and_then (create_icon 192 ''icons/icon-192.png'')
                          (create_icon 512 ''icons/icon-512.png'') fs"
proof -
  obtain a where a: "draw_icon 192 = Inr a"
    using draw_icon_eq [of 192] by simp
  obtain b where b: "draw_icon 512 = Inr b"
    using draw_icon_eq [of 512] by simp
  have ne: "''icons/icon-192.png'' \<noteq> ''icons/icon-512.png''"
    by simp
  have script:
    "and_then (create_icon 192 ''icons/icon-192.png'')
              (create_icon 512 ''icons/icon-512.png'') fs
       = (Inr (),
          fs\<lparr>fs_files := (fs_files fs)
                (''icons/icon-192.png'' \<mapsto> Encoded ''PNG'' a,
                 ''icons/icon-512.png'' \<mapsto> Encoded ''PNG'' b)\<rparr>)"
    unfolding and_then_def create_icon_drawn [OF a] create_icon_drawn [OF b]
    using assms by (simp add: Image_save_def dirname_icons)
  have exchanged:
    "and_then (create_icon 512 ''icons/icon-512.png'')
              (create_icon 192 ''icons/icon-192.png'') fs
       = (Inr (),
          fs\<lparr>fs_files := (fs_files fs)
                (''icons/icon-192.png'' \<mapsto> Encoded ''PNG'' a,
                 ''icons/icon-512.png'' \<mapsto> Encoded ''PNG'' b)\<rparr>)"
    unfolding and_then_def create_icon_drawn [OF a] create_icon_drawn [OF b]
    using assms ne by (simp add: Image_save_def dirname_icons fun_upd_twist)
  have "main fs = and_then (create_icon 192 ''icons/icon-192.png'')
                           (create_icon 512 ''icons/icon-512.png'') fs"
    by (simp add: main_def)
  with a b script exchanged show ?thesis
    by (intro exI [of _ a] exI [of _ b] conjI)
qed

theorem invocations_commute_witness:
  "''icons'' \<in> fs_dirs icons_stale \<and> ''icons'' \<notin> fs_readonly icons_stale
   \<and> fst (and_then (create_icon 512 ''icons/icon-512.png'')
                   (create_icon 192 ''icons/icon-192.png'') icons_stale) = Inr ()
   \<and> and_then (create_icon 512 ''icons/icon-512.png'')
               (create_icon 192 ''icons/icon-192.png'') icons_stale
       = main icons_stale
   \<and> map_option enc_format (fs_files icons_stale ''icons/icon-192.png'') = Some ''JPEG''
   \<and> map_option enc_format (fs_files (snd (main icons_stale)) ''icons/icon-192.png'')
       = Some ''PNG''
   \<and> map_option (im_size \<circ> enc_image)
         (fs_files (snd (main icons_stale)) ''icons/icon-192.png'') = Some (192, 192)
   \<and> map_option (im_size \<circ> enc_image)
         (fs_files (snd (main icons_stale)) ''icons/icon-512.png'') = Some (512, 512)
   \<and> dom (fs_files (snd (main icons_stale)))
       = {''icons/icon-192.png'', ''icons/icon-512.png''}"
proof -
  have there: "''icons'' \<in> fs_dirs icons_stale"
    and writable: "''icons'' \<notin> fs_readonly icons_stale"
    by (simp_all add: icons_stale_def)
  have stale: "map_option enc_format (fs_files icons_stale ''icons/icon-192.png'')
                 = Some ''JPEG''"
    and before: "dom (fs_files icons_stale) = {''icons/icon-192.png''}"
    by (simp_all add: icons_stale_def)
  obtain a b where a: "draw_icon 192 = Inr a" and b: "draw_icon 512 = Inr b"
    and script: "and_then (create_icon 192 ''icons/icon-192.png'')
                   (create_icon 512 ''icons/icon-512.png'') icons_stale
       = (Inr (),
          icons_stale\<lparr>fs_files := (fs_files icons_stale)
                (''icons/icon-192.png'' \<mapsto> Encoded ''PNG'' a,
                 ''icons/icon-512.png'' \<mapsto> Encoded ''PNG'' b)\<rparr>)"
    and exchanged: "and_then (create_icon 512 ''icons/icon-512.png'')
                   (create_icon 192 ''icons/icon-192.png'') icons_stale
       = (Inr (),
          icons_stale\<lparr>fs_files := (fs_files icons_stale)
                (''icons/icon-192.png'' \<mapsto> Encoded ''PNG'' a,
                 ''icons/icon-512.png'' \<mapsto> Encoded ''PNG'' b)\<rparr>)"
    and top: "main icons_stale
       = and_then (create_icon 192 ''icons/icon-192.png'')
                  (create_icon 512 ''icons/icon-512.png'') icons_stale"
    using invocations_commute [OF there writable] by (elim exE conjE)
  have size_a: "im_size a = (192, 192)"
    using a draw_icon_eq [of 192] by auto
  have size_b: "im_size b = (512, 512)"
    using b draw_icon_eq [of 512] by auto
  have c1: "fst (and_then (create_icon 512 ''icons/icon-512.png'')
                   (create_icon 192 ''icons/icon-192.png'') icons_stale) = Inr ()"
    unfolding exchanged by simp
  have c2: "and_then (create_icon 512 ''icons/icon-512.png'')
               (create_icon 192 ''icons/icon-192.png'') icons_stale = main icons_stale"
    unfolding top script exchanged by simp
  have c3: "map_option enc_format (fs_files (snd (main icons_stale)) ''icons/icon-192.png'')
             = Some ''PNG''"
    unfolding top script by simp
  have c4: "map_option (im_size \<circ> enc_image)
         (fs_files (snd (main icons_stale)) ''icons/icon-192.png'') = Some (192, 192)"
    unfolding top script by (simp add: size_a)
  have c5: "map_option (im_size \<circ> enc_image)
         (fs_files (snd (main icons_stale)) ''icons/icon-512.png'') = Some (512, 512)"
    unfolding top script by (simp add: size_b)
  have c6: "dom (fs_files (snd (main icons_stale)))
       = {''icons/icon-192.png'', ''icons/icon-512.png''}"
    unfolding top script by (simp add: before insert_commute)
  from there writable c1 c2 stale c3 c4 c5 c6 show ?thesis
    by (intro conjI)
qed

end
